theory Spec2Isabelle
  imports Complex_Main "HOL-Library.Log_Nat"
begin

section \<open>Single-precision floating point\<close>

text \<open>
  The simulation computes in Go's \<open>float32\<close>: IEEE 754 binary32, every operation rounded
  to nearest, ties to even. A value is a NaN (payloads are not distinguished, Go's
  comparisons cannot see them), an infinity with its sign, or a finite number
  \<open>Fin s m e\<close> standing for \<open>(-1)^s * m * 2^e\<close>. The well-formed finite values are the
  binary32 ones: a mantissa below \<open>2^24\<close>, an exponent from \<open>-149\<close> to \<open>104\<close>, and a
  normalised mantissa (at least \<open>2^23\<close>) above the lowest exponent. The two zeros are
  \<open>Fin False 0 (-149)\<close> and \<open>Fin True 0 (-149)\<close>.
\<close>

datatype float32 = NaN | Inf bool | Fin bool nat int

fun valid32 :: "float32 \<Rightarrow> bool" where
  "valid32 NaN = True"
| "valid32 (Inf s) = True"
| "valid32 (Fin s m e) = (m < 2 ^ 24 \<and> - 149 \<le> e \<and> e \<le> 104 \<and> (e = - 149 \<or> 2 ^ 23 \<le> m))"

fun is_finite :: "float32 \<Rightarrow> bool" where
  "is_finite (Fin s m e) = True"
| "is_finite x = False"

fun is_zero :: "float32 \<Rightarrow> bool" where
  "is_zero (Fin s m e) = (m = 0)"
| "is_zero x = False"

text \<open>\<open>rne a b\<close> is the quotient \<open>a / b\<close> rounded to the nearest natural number, a tie going
  to the even neighbour.\<close>

definition rne :: "nat \<Rightarrow> nat \<Rightarrow> nat" where
  "rne a b =
     (let d = a div b; r = a mod b
      in if 2 * r < b then d
         else if b < 2 * r then d + 1
         else if even d then d else d + 1)"

text \<open>\<open>ratio_ge_pow2 p q k\<close> decides \<open>2^k \<le> p / q\<close>; \<open>ilog2 p q\<close> is the binary exponent
  \<open>\<lfloor>log\<^sub>2 (p / q)\<rfloor>\<close> of a positive ratio, found from the bit lengths of \<open>p\<close> and \<open>q\<close>.\<close>

definition ratio_ge_pow2 :: "nat \<Rightarrow> nat \<Rightarrow> int \<Rightarrow> bool" where
  "ratio_ge_pow2 p q k = (if 0 \<le> k then q * 2 ^ nat k \<le> p else q \<le> p * 2 ^ nat (- k))"

definition ilog2 :: "nat \<Rightarrow> nat \<Rightarrow> int" where
  "ilog2 p q =
     (let l = int (floorlog 2 p) - int (floorlog 2 q)
      in if ratio_ge_pow2 p q l then l else l - 1)"

text \<open>\<open>round32 s p q\<close> rounds the exact value \<open>(-1)^s * p / q\<close> to binary32: the unit in the
  last place is \<open>2^k\<close> with \<open>k\<close> 23 below the binary exponent, but never below \<open>-149\<close>
  (gradual underflow); the mantissa is the value in units of \<open>2^k\<close>, rounded; a mantissa
  that rounds up to \<open>2^24\<close> moves to the next exponent, and a result beyond the largest
  exponent is an infinity.\<close>

definition round32 :: "bool \<Rightarrow> nat \<Rightarrow> nat \<Rightarrow> float32" where
  "round32 s p q =
     (if p = 0 then Fin s 0 (- 149)
      else
        let k = max (ilog2 p q - 23) (- 149);
            m = (if 0 \<le> k then rne p (q * 2 ^ nat k) else rne (p * 2 ^ nat (- k)) q);
            k' = (if m = 2 ^ 24 then k + 1 else k);
            m' = (if m = 2 ^ 24 then 2 ^ 23 else m)
        in if 104 < k' then Inf s else Fin s m' k')"

definition round_dyadic :: "bool \<Rightarrow> nat \<Rightarrow> int \<Rightarrow> float32" where
  "round_dyadic s m e =
     (if 0 \<le> e then round32 s (m * 2 ^ nat e) 1 else round32 s m (2 ^ nat (- e)))"

definition signed :: "bool \<Rightarrow> nat \<Rightarrow> int" where
  "signed s m = (if s then - int m else int m)"

text \<open>Unary minus flips the sign bit.\<close>

fun fneg :: "float32 \<Rightarrow> float32" where
  "fneg NaN = NaN"
| "fneg (Inf s) = Inf (\<not> s)"
| "fneg (Fin s m e) = Fin (\<not> s) m e"

text \<open>Addition: opposite infinities give NaN; two zeros give a zero that is negative only
  when both are; an exact sum of zero is \<open>+0\<close>; every other sum is rounded.\<close>

fun fadd :: "float32 \<Rightarrow> float32 \<Rightarrow> float32" where
  "fadd NaN y = NaN"
| "fadd x NaN = NaN"
| "fadd (Inf s) (Inf t) = (if s = t then Inf s else NaN)"
| "fadd (Inf s) (Fin t n f) = Inf s"
| "fadd (Fin s m e) (Inf t) = Inf t"
| "fadd (Fin s m e) (Fin t n f) =
     (if m = 0 \<and> n = 0 then Fin (s \<and> t) 0 (- 149)
      else
        let k = min e f;
            c = signed s (m * 2 ^ nat (e - k)) + signed t (n * 2 ^ nat (f - k))
        in if c = 0 then Fin False 0 (- 149) else round_dyadic (c < 0) (nat \<bar>c\<bar>) k)"

text \<open>Multiplication: zero times infinity is NaN; the sign is the exclusive or of the
  signs, also for a zero product.\<close>

fun fmul :: "float32 \<Rightarrow> float32 \<Rightarrow> float32" where
  "fmul NaN y = NaN"
| "fmul x NaN = NaN"
| "fmul (Inf s) (Inf t) = Inf (s \<noteq> t)"
| "fmul (Inf s) (Fin t n f) = (if n = 0 then NaN else Inf (s \<noteq> t))"
| "fmul (Fin s m e) (Inf t) = (if m = 0 then NaN else Inf (s \<noteq> t))"
| "fmul (Fin s m e) (Fin t n f) = round_dyadic (s \<noteq> t) (m * n) (e + f)"

text \<open>Division does not panic in Go: a nonzero number over zero is an infinity, zero over
  zero and infinity over infinity are NaN.\<close>

fun fdiv :: "float32 \<Rightarrow> float32 \<Rightarrow> float32" where
  "fdiv NaN y = NaN"
| "fdiv x NaN = NaN"
| "fdiv (Inf s) (Inf t) = NaN"
| "fdiv (Inf s) (Fin t n f) = Inf (s \<noteq> t)"
| "fdiv (Fin s m e) (Inf t) = Fin (s \<noteq> t) 0 (- 149)"
| "fdiv (Fin s m e) (Fin t n f) =
     (if n = 0 then (if m = 0 then NaN else Inf (s \<noteq> t))
      else if f \<le> e then round32 (s \<noteq> t) (m * 2 ^ nat (e - f)) n
      else round32 (s \<noteq> t) m (n * 2 ^ nat (f - e)))"

text \<open>Go's \<open><\<close>, \<open><=\<close> and \<open>==\<close> on \<open>float32\<close>: false whenever an operand is NaN, and
  the two zeros are equal.\<close>

fun flt :: "float32 \<Rightarrow> float32 \<Rightarrow> bool" where
  "flt NaN y = False"
| "flt x NaN = False"
| "flt (Inf s) (Inf t) = (s \<and> \<not> t)"
| "flt (Inf s) (Fin t n f) = s"
| "flt (Fin s m e) (Inf t) = (\<not> t)"
| "flt (Fin s m e) (Fin t n f) =
     (let k = min e f
      in signed s (m * 2 ^ nat (e - k)) < signed t (n * 2 ^ nat (f - k)))"

fun fle :: "float32 \<Rightarrow> float32 \<Rightarrow> bool" where
  "fle NaN y = False"
| "fle x NaN = False"
| "fle (Inf s) (Inf t) = (s \<or> \<not> t)"
| "fle (Inf s) (Fin t n f) = s"
| "fle (Fin s m e) (Inf t) = (\<not> t)"
| "fle (Fin s m e) (Fin t n f) =
     (let k = min e f
      in signed s (m * 2 ^ nat (e - k)) \<le> signed t (n * 2 ^ nat (f - k)))"

fun feq :: "float32 \<Rightarrow> float32 \<Rightarrow> bool" where
  "feq NaN y = False"
| "feq x NaN = False"
| "feq (Inf s) (Inf t) = (s = t)"
| "feq (Inf s) (Fin t n f) = False"
| "feq (Fin s m e) (Inf t) = False"
| "feq (Fin s m e) (Fin t n f) =
     (let k = min e f
      in signed s (m * 2 ^ nat (e - k)) = signed t (n * 2 ^ nat (f - k)))"

text \<open>The constants of the source: \<open>0\<close>, \<open>1.0\<close> and \<open>-1.0\<close>.\<close>

definition zero32 :: float32 where
  "zero32 = Fin False 0 (- 149)"

definition one32 :: float32 where
  "one32 = Fin False 8388608 (- 23)"

definition minus_one32 :: float32 where
  "minus_one32 = Fin True 8388608 (- 23)"

section \<open>The simulated object\<close>

text \<open>\<open>mgl32.Vec3\<close> is an array of three \<open>float32\<close>; \<open>X\<close>, \<open>Y\<close> and \<open>Z\<close> read its
  components, \<open>Add\<close> adds two vectors component by component, \<open>Mul\<close> multiplies every
  component by a scalar, and \<open>set_Y v c\<close> is the assignment \<open>v[1] = c\<close>.\<close>

datatype Vec3 = Vec3 (X: float32) (Y: float32) (Z: float32)

definition Add :: "Vec3 \<Rightarrow> Vec3 \<Rightarrow> Vec3" where
  "Add v1 v2 = Vec3 (fadd (X v1) (X v2)) (fadd (Y v1) (Y v2)) (fadd (Z v1) (Z v2))"

definition Mul :: "Vec3 \<Rightarrow> float32 \<Rightarrow> Vec3" where
  "Mul v1 c = Vec3 (fmul (X v1) c) (fmul (Y v1) c) (fmul (Z v1) c)"

definition set_Y :: "Vec3 \<Rightarrow> float32 \<Rightarrow> Vec3" where
  "set_Y v c = Vec3 (X v) c (Z v)"

definition zero_vec :: Vec3 where
  "zero_vec = Vec3 zero32 zero32 zero32"

record Object =
  Position :: Vec3
  Velocity :: Vec3
  Mass :: float32
  Forces :: Vec3
  Elasticity :: float32

text \<open>\<open>NewObject\<close> fills the fields and checks nothing. The source returns a pointer to a
  fresh object that nothing else holds, so the model passes objects by value.\<close>

definition NewObject :: "Vec3 \<Rightarrow> Vec3 \<Rightarrow> float32 \<Rightarrow> float32 \<Rightarrow> Object" where
  "NewObject position velocity mass elasticity =
     \<lparr>Position = position, Velocity = velocity, Mass = mass,
      Forces = Vec3 zero32 zero32 zero32, Elasticity = elasticity\<rparr>"

definition AddForce :: "Vec3 \<Rightarrow> Object \<Rightarrow> Object" where
  "AddForce force ob = ob\<lparr>Forces := Add (Forces ob) force\<rparr>"

text \<open>\<open>Update\<close>, statement by statement.\<close>

definition Update :: "float32 \<Rightarrow> Object \<Rightarrow> Object" where
  "Update dt ob =
     (let acceleration = Mul (Forces ob) (fdiv one32 (Mass ob));
          o1 = ob\<lparr>Velocity := Add (Velocity ob) (Mul acceleration dt)\<rparr>;
          o2 = o1\<lparr>Position := Add (Position o1) (Mul (Velocity o1) dt)\<rparr>;
          o3 = o2\<lparr>Forces := Vec3 zero32 zero32 zero32\<rparr>
      in if flt (Y (Position o3)) minus_one32 then
           (let o4 = o3\<lparr>Position := set_Y (Position o3) minus_one32\<rparr>
            in o4\<lparr>Velocity := set_Y (Velocity o4) (fmul (fneg (Y (Velocity o4))) (Elasticity o4))\<rparr>)
         else o3)"

text \<open>The state at the collision check: \<open>Update\<close> up to the reset of the forces, before
  the test against the ground.\<close>

definition integrate :: "float32 \<Rightarrow> Object \<Rightarrow> Object" where
  "integrate dt ob =
     (let acceleration = Mul (Forces ob) (fdiv one32 (Mass ob));
          o1 = ob\<lparr>Velocity := Add (Velocity ob) (Mul acceleration dt)\<rparr>;
          o2 = o1\<lparr>Position := Add (Position o1) (Mul (Velocity o1) dt)\<rparr>
      in o2\<lparr>Forces := Vec3 zero32 zero32 zero32\<rparr>)"

section \<open>The update as the specification words it\<close>

text \<open>Component-wise division of a vector by a scalar, and the five steps of the
  specification from a given acceleration on: the velocity gains \<open>acceleration * dt\<close>, the
  position gains the new velocity times \<open>dt\<close>, the forces are cleared, and a position below
  the ground is clamped with the vertical velocity reflected.\<close>

definition Div :: "Vec3 \<Rightarrow> float32 \<Rightarrow> Vec3" where
  "Div v c = Vec3 (fdiv (X v) c) (fdiv (Y v) c) (fdiv (Z v) c)"

definition spec_steps :: "Vec3 \<Rightarrow> float32 \<Rightarrow> Object \<Rightarrow> Object" where
  "spec_steps acceleration dt ob =
     (let v = Add (Velocity ob) (Mul acceleration dt);
          p = Add (Position ob) (Mul v dt)
      in if flt (Y p) minus_one32
         then \<lparr>Position = Vec3 (X p) minus_one32 (Z p),
               Velocity = Vec3 (X v) (fmul (fneg (Y v)) (Elasticity ob)) (Z v),
               Mass = Mass ob, Forces = zero_vec, Elasticity = Elasticity ob\<rparr>
         else \<lparr>Position = p, Velocity = v, Mass = Mass ob, Forces = zero_vec,
               Elasticity = Elasticity ob\<rparr>)"

section \<open>Notions used to state the results\<close>

text \<open>Two \<open>float32\<close> values are the same up to the sign of zero when they are identical
  or both are zeros; vectors, when their components are. A vector is well-formed when its
  components are, zero-valued when its components are zeros (of either sign), and free of
  negative zeros when no component is \<open>-0\<close>.\<close>

fun same32 :: "float32 \<Rightarrow> float32 \<Rightarrow> bool" where
  "same32 (Fin s m e) (Fin t n f) = (Fin s m e = Fin t n f \<or> m = 0 \<and> n = 0)"
| "same32 x y = (x = y)"

definition same_vec :: "Vec3 \<Rightarrow> Vec3 \<Rightarrow> bool" where
  "same_vec v w = (same32 (X v) (X w) \<and> same32 (Y v) (Y w) \<and> same32 (Z v) (Z w))"

definition valid_vec :: "Vec3 \<Rightarrow> bool" where
  "valid_vec v = (valid32 (X v) \<and> valid32 (Y v) \<and> valid32 (Z v))"

fun neg_zero :: "float32 \<Rightarrow> bool" where
  "neg_zero (Fin s m e) = (s \<and> m = 0)"
| "neg_zero x = False"

definition zero_valued :: "Vec3 \<Rightarrow> bool" where
  "zero_valued v = (is_zero (X v) \<and> is_zero (Y v) \<and> is_zero (Z v))"

definition no_neg_zero :: "Vec3 \<Rightarrow> bool" where
  "no_neg_zero v = (\<not> (neg_zero (X v) \<or> neg_zero (Y v) \<or> neg_zero (Z v)))"

text \<open>The numerator and the denominator that \<open>round32\<close> hands to \<open>rne\<close> for the unit
  \<open>2^k\<close>.\<close>

definition scale_num :: "nat \<Rightarrow> int \<Rightarrow> nat" where
  "scale_num p k = (if 0 \<le> k then p else p * 2 ^ nat (- k))"

definition scale_den :: "nat \<Rightarrow> int \<Rightarrow> nat" where
  "scale_den q k = (if 0 \<le> k then q * 2 ^ nat k else q)"

section \<open>Evaluation\<close>

lemmas f32_eval =
  round32_def ilog2_def ratio_ge_pow2_def rne_def round_dyadic_def signed_def
  compute_floorlog Let_def zero32_def one32_def minus_one32_def

lemmas obj_eval =
  NewObject_def AddForce_def Update_def integrate_def spec_steps_def Add_def Mul_def Div_def
  set_Y_def zero_vec_def

section \<open>Rounding\<close>

lemma pow2_nat: "2 powr real_of_int (int n) = (2::real) ^ n"
  by (simp add: powr_realpow)

lemma pow2_neg_nat: "2 powr real_of_int (- int n) = 1 / (2::real) ^ n"
  by (simp add: powr_minus powr_realpow divide_inverse)

lemma ratio_ge_pow2_real:
  assumes "0 < q"
  shows "ratio_ge_pow2 p q k \<longleftrightarrow> 2 powr real_of_int k * real q \<le> real p"
proof (cases "0 \<le> k")
  case True
  then obtain n where k: "k = int n" using nonneg_int_cases by blast
  have "(q * 2 ^ n \<le> p) = (real (q * 2 ^ n) \<le> real p)" by (simp only: of_nat_le_iff)
  then show ?thesis using True k by (simp add: ratio_ge_pow2_def pow2_nat mult.commute powr_realpow)
next
  case False
  then obtain n where k: "k = - int n" by (metis int_cases2 nat_le_linear of_nat_0_le_iff)
  have "(q \<le> p * 2 ^ n) = (real q \<le> real (p * 2 ^ n))" by (simp only: of_nat_le_iff)
  also have "\<dots> = (1 / 2 ^ n * real q \<le> real p)" by (simp add: field_simps)
  finally show ?thesis using False k by (simp add: ratio_ge_pow2_def powr_minus powr_realpow divide_inverse)
qed

lemma ilog2_bounds:
  assumes "0 < p" "0 < q"
  shows "2 powr real_of_int (ilog2 p q) * real q \<le> real p"
    and "real p < 2 powr real_of_int (ilog2 p q + 1) * real q"
proof -
  define bp where "bp = floorlog 2 p"
  define bq where "bq = floorlog 2 q"
  have p1: "2 ^ (bp - 1) \<le> p" and p2: "p < 2 ^ bp"
    using floorlog_bounds[of p 2] assms by (auto simp: bp_def)
  have q1: "2 ^ (bq - 1) \<le> q" and q2: "q < 2 ^ bq"
    using floorlog_bounds[of q 2] assms by (auto simp: bq_def)
  have bp0: "0 < bp" using assms by (simp add: bp_def floorlog_def)
  have bq0: "0 < bq" using assms by (simp add: bq_def floorlog_def)
  define l where "l = int bp - int bq"
  have rp1: "2 powr real_of_int (int bp - 1) \<le> real p"
  proof -
    have "int bp - 1 = int (bp - 1)" using bp0 by simp
    then have "2 powr real_of_int (int bp - 1) = 2 ^ (bp - 1)" by (simp only: pow2_nat)
    also have "\<dots> \<le> real p" using p1 by (metis of_nat_le_iff of_nat_numeral of_nat_power)
    finally show ?thesis .
  qed
  have rp2: "real p < 2 powr real_of_int (int bp)"
    using p2 by (metis pow2_nat of_nat_less_iff of_nat_numeral of_nat_power)
  have rq1: "2 powr real_of_int (int bq - 1) \<le> real q"
  proof -
    have "int bq - 1 = int (bq - 1)" using bq0 by simp
    then have "2 powr real_of_int (int bq - 1) = 2 ^ (bq - 1)" by (simp only: pow2_nat)
    also have "\<dots> \<le> real q" using q1 by (metis of_nat_le_iff of_nat_numeral of_nat_power)
    finally show ?thesis .
  qed
  have rq2: "real q < 2 powr real_of_int (int bq)"
    using q2 by (metis pow2_nat of_nat_less_iff of_nat_numeral of_nat_power)
  have lo: "2 powr real_of_int (l - 1) * real q \<le> real p"
  proof -
    have "2 powr real_of_int (l - 1) * real q \<le> 2 powr real_of_int (l - 1) * 2 powr real_of_int (int bq)"
      using rq2 by (simp add: mult_left_mono)
    also have "\<dots> = 2 powr real_of_int (int bp - 1)"
      by (simp add: l_def powr_add[symmetric])
    finally show ?thesis using rp1 by simp
  qed
  have hi: "real p < 2 powr real_of_int (l + 1) * real q"
  proof -
    have "real p < 2 powr real_of_int (int bp)" by (rule rp2)
    also have "\<dots> = 2 powr real_of_int (l + 1) * 2 powr real_of_int (int bq - 1)"
      by (simp add: l_def powr_add[symmetric])
    also have "\<dots> \<le> 2 powr real_of_int (l + 1) * real q"
      using rq1 by (simp add: mult_left_mono)
    finally show ?thesis .
  qed
  show "2 powr real_of_int (ilog2 p q) * real q \<le> real p"
    using lo ratio_ge_pow2_real[OF assms(2), of p l]
    by (simp add: ilog2_def Let_def l_def bp_def bq_def)
  show "real p < 2 powr real_of_int (ilog2 p q + 1) * real q"
    using hi ratio_ge_pow2_real[OF assms(2), of p l]
    by (auto simp add: ilog2_def Let_def l_def bp_def bq_def not_le)
qed

lemma rne_real_exact:
  assumes "0 < b" "real a = real n * real b"
  shows "rne a b = n"
proof -
  have "a = n * b" using assms(2) by (metis of_nat_eq_iff of_nat_mult)
  then show ?thesis using assms(1) by (simp add: rne_def)
qed

lemma rne_real_ge:
  assumes "0 < b" "real n * real b \<le> real a"
  shows "n \<le> rne a b"
proof -
  have "n * b \<le> a" using assms(2) by (metis of_nat_le_iff of_nat_mult)
  then have "n \<le> a div b" using assms(1) by (simp add: less_eq_div_iff_mult_less_eq)
  then show ?thesis by (simp add: rne_def Let_def)
qed

lemma rne_real_le:
  assumes "0 < b" "real a \<le> real n * real b"
  shows "rne a b \<le> n"
proof -
  have le: "a \<le> n * b" using assms(2) by (metis of_nat_le_iff of_nat_mult)
  show ?thesis
  proof (cases "a = n * b")
    case True
    then show ?thesis using assms(1) by (simp add: rne_def)
  next
    case False
    then have "a < n * b" using le by simp
    then have "a div b < n" using assms(1) by (simp add: div_less_iff_less_mult)
    then show ?thesis by (simp add: rne_def Let_def)
  qed
qed

lemma scale_den_pos: "0 < q \<Longrightarrow> 0 < scale_den q k"
  by (simp add: scale_den_def)

lemma scale_ratio:
  "real (scale_num p k) * real q = real p * real (scale_den q k) * 2 powr real_of_int (- k)"
proof (cases "0 \<le> k")
  case True
  then obtain n where k: "k = int n" using nonneg_int_cases by blast
  show ?thesis using True unfolding k scale_num_def scale_den_def
    by (simp add: powr_minus powr_realpow)
next
  case False
  then obtain n where k: "k = - int n" by (metis int_cases2 of_nat_0_le_iff)
  show ?thesis using False unfolding k scale_num_def scale_den_def
    by (simp add: powr_realpow)
qed

lemma round32_unfold:
  "0 < p \<Longrightarrow> round32 s p q =
     (let k = max (ilog2 p q - 23) (- 149);
          m = rne (scale_num p k) (scale_den q k)
      in if m = 2 ^ 24 then (if 104 < k + 1 then Inf s else Fin s (2 ^ 23) (k + 1))
         else (if 104 < k then Inf s else Fin s m k))"
  by (simp add: round32_def scale_num_def scale_den_def Let_def)

lemma pow2_mono: "a \<le> b \<Longrightarrow> 2 powr real_of_int a \<le> (2::real) powr real_of_int b"
  by simp

lemma pow2_add: "2 powr real_of_int (a + b) = (2::real) powr real_of_int a * 2 powr real_of_int b"
  by (simp add: powr_add)

lemma pow2_24: "2 powr real_of_int 24 = (2::real) ^ 24"
  using pow2_nat[of 24] by simp

lemma pow2_23: "2 powr real_of_int 23 = (2::real) ^ 23"
  using pow2_nat[of 23] by simp

text \<open>the mantissa computed by round32\<close>
lemma mantissa_bounds:
  assumes p: "0 < p" and q: "0 < q"
  defines "k \<equiv> max (ilog2 p q - 23) (- 149)"
  defines "m \<equiv> rne (scale_num p k) (scale_den q k)"
  shows "m \<le> 2 ^ 24" and "k = - 149 \<or> 2 ^ 23 \<le> m"
proof -
  define E where "E = ilog2 p q"
  have lo: "2 powr real_of_int E * real q \<le> real p"
    and hi: "real p < 2 powr real_of_int (E + 1) * real q"
    using ilog2_bounds[OF p q] by (simp_all add: E_def)
  have B: "0 < scale_den q k" using q by (rule scale_den_pos)
  have sr: "real (scale_num p k) * real q = real p * real (scale_den q k) * 2 powr real_of_int (- k)"
    by (rule scale_ratio)
  have kE: "E - 23 \<le> k" by (simp add: k_def E_def)
  have "real (scale_num p k) * real q \<le> (2 ^ 24 * real (scale_den q k)) * real q"
  proof -
    have "real p * 2 powr real_of_int (- k) \<le> 2 powr real_of_int (E + 1) * real q * 2 powr real_of_int (- k)"
      using hi by (simp add: mult_right_mono)
    also have "\<dots> = 2 powr real_of_int (E + 1 - k) * real q"
      by (simp add: powr_add[symmetric] algebra_simps powr_diff powr_minus field_simps)
    also have "\<dots> \<le> 2 powr real_of_int 24 * real q"
      using kE by (intro mult_right_mono pow2_mono) auto
    finally have "real p * 2 powr real_of_int (- k) \<le> 2 ^ 24 * real q" by (simp only: pow2_24)
    then have "real p * 2 powr real_of_int (- k) * real (scale_den q k) \<le> 2 ^ 24 * real q * real (scale_den q k)"
      by (intro mult_right_mono) auto
    then show ?thesis using sr by (simp add: algebra_simps)
  qed
  then have "real (scale_num p k) \<le> real (2 ^ 24) * real (scale_den q k)"
    using q by simp
  then show "m \<le> 2 ^ 24" unfolding m_def by (rule rne_real_le[OF B])
  show "k = - 149 \<or> 2 ^ 23 \<le> m"
  proof (cases "k = - 149")
    case True then show ?thesis by simp
  next
    case False
    then have k: "k = E - 23" by (auto simp: k_def E_def max_def split: if_splits)
    have "2 powr real_of_int E * real q * 2 powr real_of_int (- k) \<le> real p * 2 powr real_of_int (- k)"
      using lo by (intro mult_right_mono) auto
    moreover have "2 powr real_of_int E * real q * 2 powr real_of_int (- k) = 2 powr real_of_int 23 * real q"
      unfolding k by (simp add: powr_add[symmetric] algebra_simps powr_diff powr_minus field_simps)
    ultimately have "2 ^ 23 * real q \<le> real p * 2 powr real_of_int (- k)" by (simp only: pow2_23)
    then have "2 ^ 23 * real q * real (scale_den q k) \<le> real p * 2 powr real_of_int (- k) * real (scale_den q k)"
      by (intro mult_right_mono) auto
    then have "(2 ^ 23 * real (scale_den q k)) * real q \<le> real (scale_num p k) * real q"
      using sr by (simp add: algebra_simps)
    then have "real (2 ^ 23) * real (scale_den q k) \<le> real (scale_num p k)"
      using q by simp
    then have "2 ^ 23 \<le> m" unfolding m_def by (rule rne_real_ge[OF B])
    then show ?thesis by simp
  qed
qed

lemma valid32_round32:
  assumes "0 < q"
  shows "valid32 (round32 s p q)"
proof (cases "p = 0")
  case True
  then show ?thesis by (simp add: round32_def)
next
  case False
  then have p: "0 < p" by simp
  define k where "k = max (ilog2 p q - 23) (- 149)"
  define m where "m = rne (scale_num p k) (scale_den q k)"
  have m1: "m \<le> 2 ^ 24" and m2: "k = - 149 \<or> 2 ^ 23 \<le> m"
    using mantissa_bounds[OF p assms] by (simp_all add: k_def m_def)
  have k1: "- 149 \<le> k" by (simp add: k_def)
  show ?thesis
    using m1 m2 k1 unfolding round32_unfold[OF p] Let_def k_def[symmetric] m_def[symmetric]
    by auto
qed

lemma pow2_less_cancel: "2 powr real_of_int a < (2::real) powr real_of_int b \<Longrightarrow> a < b"
  by simp

lemma round32_exact:
  assumes v: "valid32 (Fin s m e)" and m: "0 < m" and q: "0 < q"
    and eq: "real p = real m * 2 powr real_of_int e * real q"
  shows "round32 s p q = Fin s m e"
proof -
  have p: "0 < p"
  proof -
    have "0 < real m * 2 powr real_of_int e * real q" using m q by simp
    then show ?thesis using eq by simp
  qed
  define E where "E = ilog2 p q"
  have lo: "2 powr real_of_int E * real q \<le> real p"
    and hi: "real p < 2 powr real_of_int (E + 1) * real q"
    using ilog2_bounds[OF p q] by (simp_all add: E_def)
  have lo': "2 powr real_of_int E \<le> real m * 2 powr real_of_int e"
    using lo q unfolding eq by simp
  have hi': "real m * 2 powr real_of_int e < 2 powr real_of_int (E + 1)"
    using hi q unfolding eq by simp
  have mlt: "real m < 2 powr real_of_int 24"
    using v unfolding pow2_24 by (metis of_nat_less_iff of_nat_numeral of_nat_power valid32.simps(3))
  have "2 powr real_of_int E < 2 powr real_of_int 24 * 2 powr real_of_int e"
    using lo' mlt by (smt (verit) mult_strict_right_mono powr_gt_zero)
  then have "2 powr real_of_int E < 2 powr real_of_int (24 + e)" by (simp only: pow2_add)
  then have E1: "E < 24 + e" by (rule pow2_less_cancel)
  have k: "max (E - 23) (- 149) = e"
  proof (cases "e = - 149")
    case True
    then show ?thesis using E1 by simp
  next
    case False
    then have "2 ^ 23 \<le> m" and "- 149 \<le> e" using v by auto
    then have "2 powr real_of_int 23 \<le> real m" unfolding pow2_23
      by (metis of_nat_le_iff of_nat_numeral of_nat_power)
    then have "2 powr real_of_int 23 * 2 powr real_of_int e \<le> real m * 2 powr real_of_int e"
      by (intro mult_right_mono) auto
    then have "2 powr real_of_int (23 + e) \<le> real m * 2 powr real_of_int e"
      by (simp only: pow2_add)
    then have "2 powr real_of_int (23 + e) < 2 powr real_of_int (E + 1)"
      using hi' by (rule order.strict_trans1)
    then have "23 + e < E + 1" by (rule pow2_less_cancel)
    then show ?thesis using E1 \<open>- 149 \<le> e\<close> by simp
  qed
  have B: "0 < scale_den q e" using q by (rule scale_den_pos)
  have sr: "real (scale_num p e) * real q = real p * real (scale_den q e) * 2 powr real_of_int (- e)"
    by (rule scale_ratio)
  have "real p * real (scale_den q e) * 2 powr real_of_int (- e) = real m * real (scale_den q e) * real q"
    unfolding eq by (simp add: powr_minus field_simps)
  then have "real (scale_num p e) * real q = (real m * real (scale_den q e)) * real q" using sr by simp
  then have "real (scale_num p e) = real m * real (scale_den q e)" using q by simp
  then have r: "rne (scale_num p e) (scale_den q e) = m" by (rule rne_real_exact[OF B])
  have "m \<noteq> 2 ^ 24" and "\<not> 104 < e" using v by auto
  then show ?thesis
    unfolding round32_unfold[OF p] Let_def E_def[symmetric] k r by simp
qed

lemma round32_nonzero:
  assumes p: "0 < p" and q: "0 < q"
    and ge: "2 powr real_of_int (- 149) * real q \<le> real p"
    and r: "round32 s p q = Fin t m e"
  shows "0 < m"
proof -
  define k where "k = max (ilog2 p q - 23) (- 149)"
  define n where "n = rne (scale_num p k) (scale_den q k)"
  have n2: "k = - 149 \<or> 2 ^ 23 \<le> n"
    using mantissa_bounds[OF p q] by (simp_all add: k_def n_def)
  have B: "0 < scale_den q k" using q by (rule scale_den_pos)
  have "0 < n"
  proof (cases "k = - 149")
    case True
    have sr: "real (scale_num p k) * real q = real p * real (scale_den q k) * 2 powr real_of_int (- k)"
      by (rule scale_ratio)
    define c :: real where "c = 2 powr real_of_int (- 149)"
    define d :: real where "d = 2 powr real_of_int (- k)"
    define B :: real where "B = real (scale_den q k)"
    have d0: "0 \<le> d" and B0: "0 \<le> B" by (simp_all add: d_def B_def)
    have cd: "c * d = 1"
    proof -
      have "c * d = 2 powr real_of_int (- 149 + - k)" unfolding c_def d_def by (simp only: pow2_add)
      then show ?thesis unfolding True by simp
    qed
    have le: "c * real q * (d * B) \<le> real p * (d * B)"
      using ge d0 B0 unfolding c_def by (intro mult_right_mono) auto
    have "c * real q * (d * B) = (c * d) * (B * real q)" by (simp add: algebra_simps)
    then have e1: "c * real q * (d * B) = B * real q" by (simp only: cd mult_1)
    have e2: "real p * (d * B) = real (scale_num p k) * real q"
      using sr by (simp add: d_def B_def algebra_simps)
    have "B * real q \<le> real (scale_num p k) * real q"
      using le by (simp only: e1 e2)
    then have "real (scale_den q k) * real q \<le> real (scale_num p k) * real q"
      by (simp only: B_def)
    then have "real 1 * real (scale_den q k) \<le> real (scale_num p k)" using q by simp
    then have "1 \<le> n" unfolding n_def by (rule rne_real_ge[OF B])
    then show ?thesis by simp
  next
    case False
    then have "2 ^ 23 \<le> n" using n2 by simp
    moreover have "(0::nat) < 2 ^ 23" by simp
    ultimately show ?thesis by linarith
  qed
  then show ?thesis
    using r unfolding round32_unfold[OF p] Let_def k_def[symmetric] n_def[symmetric]
    by (auto split: if_splits)
qed

text \<open>round_dyadic as a ratio\<close>
lemma round_dyadic_ratio:
  obtains p q where "0 < q" "round_dyadic s M E = round32 s p q"
    "real p = real M * 2 powr real_of_int E * real q"
proof (cases "0 \<le> E")
  case True
  then obtain n where E: "E = int n" using nonneg_int_cases by blast
  show ?thesis
    by (rule that[of 1 "M * 2 ^ n"]) (simp_all add: round_dyadic_def E powr_realpow)
next
  case False
  then obtain n where E: "E = - int n" by (metis int_cases2 of_nat_0_le_iff)
  show ?thesis
    by (rule that[of "2 ^ n" M]) (use False in \<open>simp_all add: round_dyadic_def E powr_realpow powr_minus\<close>)
qed

lemma valid32_round_dyadic: "valid32 (round_dyadic s M E)"
  by (rule round_dyadic_ratio[of s M E]) (simp add: valid32_round32)

lemma round_dyadic_exact:
  assumes "valid32 (Fin s m e)" "0 < m"
    and "real M * 2 powr real_of_int E = real m * 2 powr real_of_int e"
  shows "round_dyadic s M E = Fin s m e"
proof (rule round_dyadic_ratio[of s M E])
  fix p q
  assume q: "0 < q" and r: "round_dyadic s M E = round32 s p q"
    and e: "real p = real M * 2 powr real_of_int E * real q"
  show ?thesis unfolding r
    by (rule round32_exact[OF assms(1,2) q]) (simp add: e assms(3))
qed

lemma round_dyadic_nonzero:
  assumes M: "0 < M" and E: "- 149 \<le> E" and r: "round_dyadic s M E = Fin t m e"
  shows "0 < m"
proof (rule round_dyadic_ratio[of s M E])
  fix p q
  assume q: "0 < q" and rr: "round_dyadic s M E = round32 s p q"
    and e: "real p = real M * 2 powr real_of_int E * real q"
  have p: "0 < p"
  proof -
    have "0 < real M * 2 powr real_of_int E * real q" using M q by simp
    then show ?thesis using e by simp
  qed
  have "2 powr real_of_int (- 149) \<le> 1 * 2 powr real_of_int E" using E by simp
  also have "\<dots> \<le> real M * 2 powr real_of_int E"
    using M by (intro mult_right_mono) auto
  finally have "2 powr real_of_int (- 149) * real q \<le> real M * 2 powr real_of_int E * real q"
    by (intro mult_right_mono) auto
  then have ge: "2 powr real_of_int (- 149) * real q \<le> real p" using e by simp
  show ?thesis using round32_nonzero[OF p q ge] r rr by simp
qed

section \<open>The arithmetic operations\<close>

lemma valid32_fadd: "valid32 (fadd x y)"
  by (cases x; cases y) (auto simp: Let_def valid32_round_dyadic)

lemma valid32_fmul: "valid32 (fmul x y)"
  by (cases x; cases y) (auto simp: valid32_round_dyadic)

lemma valid32_fdiv: "valid32 (fdiv x y)"
  by (cases x; cases y) (auto simp: valid32_round32)

lemma round_dyadic_zero: "round_dyadic s 0 E = Fin s 0 (- 149)"
  by (simp add: round_dyadic_def round32_def)

lemma shift_value:
  assumes "k \<le> e"
  shows "real (m * 2 ^ nat (e - k)) * 2 powr real_of_int k = real m * 2 powr real_of_int e"
proof -
  obtain n where n: "e - k = int n" using assms by (metis diff_ge_0_iff_ge nonneg_int_cases)
  have "real (m * 2 ^ nat (e - k)) = real m * 2 powr real_of_int (e - k)"
    unfolding n by (simp add: powr_realpow)
  then have "real (m * 2 ^ nat (e - k)) * 2 powr real_of_int k
      = real m * (2 powr real_of_int (e - k) * 2 powr real_of_int k)" by simp
  also have "2 powr real_of_int (e - k) * 2 powr real_of_int k = (2::real) powr real_of_int (e - k + k)"
    by (simp only: pow2_add)
  finally show ?thesis by simp
qed

lemma fmul_one32:
  assumes "valid32 x"
  shows "fmul x one32 = x"
proof (cases x)
  case NaN
  then show ?thesis by (simp add: one32_def)
next
  case (Inf s)
  then show ?thesis by (simp add: one32_def)
next
  case (Fin s m e)
  show ?thesis
  proof (cases "m = 0")
    case True
    then have "e = - 149" using assms Fin by simp
    then show ?thesis using True Fin by (simp add: one32_def round_dyadic_zero)
  next
    case False
    have v: "valid32 (Fin s m e)" using assms Fin by simp
    have "real (m * 2 ^ nat (e - (e - 23))) * 2 powr real_of_int (e - 23) = real m * 2 powr real_of_int e"
      by (rule shift_value) simp
    then have "real (m * 8388608) * 2 powr real_of_int (e + - 23) = real m * 2 powr real_of_int e"
      by simp
    then have "round_dyadic s (m * 8388608) (e + - 23) = Fin s m e"
      using v False by (intro round_dyadic_exact) auto
    then show ?thesis using Fin by (simp add: one32_def)
  qed
qed

lemma fadd_zero_right:
  assumes v: "valid32 (Fin s m e)" and m: "0 < m"
  shows "fadd (Fin s m e) (Fin t 0 f) = Fin s m e"
proof -
  define k where "k = min e f"
  define M where "M = m * 2 ^ nat (e - k)"
  have M0: "0 < M" using m by (simp add: M_def)
  have val: "real M * 2 powr real_of_int k = real m * 2 powr real_of_int e"
    unfolding M_def by (rule shift_value) (simp add: k_def)
  have "round_dyadic s M k = Fin s m e"
    by (rule round_dyadic_exact[OF v m val])
  moreover have "fadd (Fin s m e) (Fin t 0 f) = round_dyadic s M k"
    using m M0 by (simp add: Let_def k_def[symmetric] M_def[symmetric] signed_def)
  ultimately show ?thesis by simp
qed

lemma fadd_zero_left:
  assumes v: "valid32 (Fin s m e)" and m: "0 < m"
  shows "fadd (Fin t 0 f) (Fin s m e) = Fin s m e"
proof -
  define k where "k = min f e"
  define M where "M = m * 2 ^ nat (e - k)"
  have M0: "0 < M" using m by (simp add: M_def)
  have val: "real M * 2 powr real_of_int k = real m * 2 powr real_of_int e"
    unfolding M_def by (rule shift_value) (simp add: k_def)
  have "round_dyadic s M k = Fin s m e"
    by (rule round_dyadic_exact[OF v m val])
  moreover have "fadd (Fin t 0 f) (Fin s m e) = round_dyadic s M k"
    using m M0 by (simp add: Let_def k_def[symmetric] M_def[symmetric] signed_def)
  ultimately show ?thesis by simp
qed

lemma fadd_neg_zero:
  assumes "valid32 x" "valid32 y" "fadd x y = Fin True 0 k"
  shows "x = Fin True 0 (- 149) \<and> y = Fin True 0 (- 149)"
proof -
  obtain s m e where x: "x = Fin s m e" using assms(3) by (cases x; cases y) (auto split: if_splits)
  obtain t n f where y: "y = Fin t n f" using assms(3) by (cases x; cases y) (auto split: if_splits)
  show ?thesis
  proof (cases "m = 0 \<and> n = 0")
    case True
    then show ?thesis using assms unfolding x y by auto
  next
    case False
    define j where "j = min e f"
    define c where "c = signed s (m * 2 ^ nat (e - j)) + signed t (n * 2 ^ nat (f - j))"
    have j: "- 149 \<le> j" using assms(1,2) unfolding x y j_def by simp
    have r: "fadd x y = (if c = 0 then Fin False 0 (- 149) else round_dyadic (c < 0) (nat \<bar>c\<bar>) j)"
      using False unfolding x y by (auto simp add: Let_def j_def c_def)
    show ?thesis
    proof (cases "c = 0")
      case True
      then show ?thesis using r assms(3) by simp
    next
      case c: False
      then have "round_dyadic (c < 0) (nat \<bar>c\<bar>) j = Fin True 0 k" using r assms(3) by simp
      moreover have "0 < nat \<bar>c\<bar>" using c by simp
      ultimately have "(0::nat) < 0" using j by (rule round_dyadic_nonzero[rotated 2])
      then show ?thesis by simp
    qed
  qed
qed

lemma not_flt_fle: "\<not> flt x y \<Longrightarrow> x \<noteq> NaN \<Longrightarrow> y \<noteq> NaN \<Longrightarrow> fle y x"
  by (cases x; cases y) (auto simp: Let_def min.commute not_less)

section \<open>The update in two halves\<close>

lemma Update_integrate:
  "Update dt ob =
     (if flt (Y (Position (integrate dt ob))) minus_one32
      then (integrate dt ob)\<lparr>Position := set_Y (Position (integrate dt ob)) minus_one32,
             Velocity := set_Y (Velocity (integrate dt ob))
               (fmul (fneg (Y (Velocity (integrate dt ob)))) (Elasticity ob))\<rparr>
      else integrate dt ob)"
  by (simp add: Update_def integrate_def Let_def)

lemma integrate_Velocity:
  "Velocity (integrate dt ob) = Add (Velocity ob) (Mul (Mul (Forces ob) (fdiv one32 (Mass ob))) dt)"
  by (simp add: integrate_def Let_def)

lemma integrate_Position:
  "Position (integrate dt ob) = Add (Position ob) (Mul (Velocity (integrate dt ob)) dt)"
  by (simp add: integrate_def Let_def)

lemma same32_refl: "same32 x x"
  by (cases x) auto

lemma feq_refl: "x \<noteq> NaN \<Longrightarrow> feq x x"
  by (cases x) auto

lemma valid32_fneg: "valid32 (fneg x) = valid32 x"
  by (cases x) auto

lemma flt_fadd_fmul_not_NaN: "flt (fadd p (fmul v dt)) g \<Longrightarrow> v \<noteq> NaN"
  by (cases p) auto

lemma fmul_zero_right: "fmul (Fin s m e) (Fin t 0 f) = Fin (s \<noteq> t) 0 (- 149)"
  by (simp add: round_dyadic_zero)

lemma fmul_zero_left: "fmul (Fin t 0 f) (Fin s m e) = Fin (t \<noteq> s) 0 (- 149)"
  by (simp add: round_dyadic_zero)

lemma not_flt_ground: "\<not> flt minus_one32 minus_one32" "fle minus_one32 minus_one32"
  by (simp_all add: minus_one32_def signed_def)

lemma fadd_zero32_left:
  assumes "valid32 x" "\<not> neg_zero x"
  shows "fadd zero32 x = x"
proof (cases x)
  case (Fin s m e)
  show ?thesis
  proof (cases "m = 0")
    case True
    then show ?thesis using assms Fin by (auto simp: zero32_def)
  next
    case False
    then have "0 < m" by simp
    moreover have "valid32 (Fin s m e)" using assms Fin by simp
    ultimately have "fadd (Fin False 0 (- 149)) (Fin s m e) = Fin s m e" by (rule fadd_zero_left[rotated])
    then show ?thesis unfolding Fin zero32_def .
  qed
qed (simp_all add: zero32_def)

lemma fadd_any_zero_left:
  assumes "valid32 x" "\<not> is_zero x"
  shows "fadd (Fin s 0 (- 149)) x = x"
proof (cases x)
  case (Fin t m e)
  have "valid32 (Fin t m e)" "0 < m" using assms Fin by simp_all
  then show ?thesis unfolding Fin by (rule fadd_zero_left)
qed simp_all

lemma fadd_zero_assoc:
  assumes a: "valid32 a" and b: "valid32 b"
  shows "fadd (fadd zero32 a) b = fadd zero32 (fadd a b)"
proof (cases "is_zero a")
  case False
  then have na: "\<not> neg_zero a" by (cases a) auto
  have "\<not> neg_zero (fadd a b)"
  proof
    assume "neg_zero (fadd a b)"
    then obtain k where "fadd a b = Fin True 0 k" by (cases "fadd a b") auto
    then have "a = Fin True 0 (- 149)" using fadd_neg_zero[OF a b] by simp
    then show False using False by simp
  qed
  then have "fadd zero32 (fadd a b) = fadd a b"
    by (intro fadd_zero32_left valid32_fadd)
  moreover have "fadd zero32 a = a" using a na by (rule fadd_zero32_left)
  ultimately show ?thesis by simp
next
  case True
  then obtain s where as: "a = Fin s 0 (- 149)" using a by (cases a) auto
  have l: "fadd zero32 a = zero32" by (simp add: as zero32_def)
  show ?thesis
  proof (cases "is_zero b")
    case True
    then obtain t where bs: "b = Fin t 0 (- 149)" using b by (cases b) auto
    show ?thesis by (simp add: as bs zero32_def)
  next
    case False
    then have "fadd a b = b" unfolding as using b by (intro fadd_any_zero_left)
    moreover have "fadd zero32 b = b" unfolding zero32_def using b False by (intro fadd_any_zero_left)
    ultimately show ?thesis using l by simp
  qed
qed

lemma same32_sym: "same32 x y \<Longrightarrow> same32 y x"
  by (cases x; cases y) auto

lemma same32_trans: "same32 x y \<Longrightarrow> same32 y z \<Longrightarrow> same32 x z"
  by (cases x; cases y; cases z) auto

lemma same32_cases: "same32 x y \<Longrightarrow> x = y \<or> is_zero x \<and> is_zero y"
  by (cases x; cases y) auto

lemma zero_fmul_finite:
  assumes "is_zero z" "is_finite c"
  obtains w where "fmul z c = Fin w 0 (- 149)"
proof -
  obtain s e where z: "z = Fin s 0 e" using assms(1) by (cases z) auto
  obtain t n f where c: "c = Fin t n f" using assms(2) by (cases c) auto
  show ?thesis by (rule that[of "s \<noteq> t"]) (simp add: z c round_dyadic_zero)
qed

lemma fadd_zero_same:
  assumes "valid32 v"
  shows "same32 (fadd v (Fin w 0 k)) v"
proof (cases v)
  case (Fin s m e)
  show ?thesis
  proof (cases "m = 0")
    case True
    then show ?thesis by (simp add: Fin)
  next
    case False
    then have "valid32 (Fin s m e)" "0 < m" using assms Fin by simp_all
    then have "fadd (Fin s m e) (Fin w 0 k) = Fin s m e" by (rule fadd_zero_right)
    then show ?thesis unfolding Fin by (simp only: same32_refl)
  qed
qed simp_all

lemma zero_force_velocity:
  assumes F: "is_zero F" and r: "is_finite r" and dt: "is_finite dt" and v: "valid32 v"
  shows "same32 (fadd v (fmul (fmul F r) dt)) v"
proof -
  obtain w where w: "fmul F r = Fin w 0 (- 149)" using F r by (rule zero_fmul_finite)
  have "is_zero (fmul F r)" by (simp add: w)
  then obtain w' where w': "fmul (fmul F r) dt = Fin w' 0 (- 149)" using dt by (rule zero_fmul_finite)
  show ?thesis unfolding w' using v by (rule fadd_zero_same)
qed

lemma zero_force_position:
  assumes F: "is_zero F" and r: "is_finite r" and dt: "is_finite dt"
    and v: "valid32 v" and p: "valid32 p"
  shows "same32 (fadd p (fmul (fadd v (fmul (fmul F r) dt)) dt)) (fadd p (fmul v dt))"
proof -
  define v' where "v' = fadd v (fmul (fmul F r) dt)"
  have "same32 v' v" unfolding v'_def using F r dt v by (rule zero_force_velocity)
  then have "v' = v \<or> is_zero v' \<and> is_zero v" by (rule same32_cases)
  then have "same32 (fadd p (fmul v' dt)) (fadd p (fmul v dt))"
  proof
    assume "v' = v"
    then show ?thesis by (simp only: same32_refl)
  next
    assume z: "is_zero v' \<and> is_zero v"
    have "is_zero v'" using z by (rule conjunct1)
    then obtain a where a: "fmul v' dt = Fin a 0 (- 149)" using dt by (rule zero_fmul_finite)
    have "is_zero v" using z by (rule conjunct2)
    then obtain b where b: "fmul v dt = Fin b 0 (- 149)" using dt by (rule zero_fmul_finite)
    have "same32 (fadd p (Fin a 0 (- 149))) p" using p by (rule fadd_zero_same)
    moreover have "same32 p (fadd p (Fin b 0 (- 149)))" by (rule same32_sym[OF fadd_zero_same[OF p]])
    ultimately show ?thesis unfolding a b by (rule same32_trans)
  qed
  then show ?thesis unfolding v'_def .
qed

lemma Add_zero_left:
  assumes "valid_vec f" "no_neg_zero f"
  shows "Add (Vec3 zero32 zero32 zero32) f = f"
proof -
  have "fadd zero32 (X f) = X f" "fadd zero32 (Y f) = Y f" "fadd zero32 (Z f) = Z f"
    using assms by (auto simp only: valid_vec_def no_neg_zero_def de_Morgan_disj intro: fadd_zero32_left)
  then show ?thesis by (simp only: Add_def Vec3.sel Vec3.collapse)
qed

section \<open>Construction\<close>

text \<open>C9: whatever the position, velocity, mass and elasticity, the object that
  \<open>NewObject\<close> returns has the zero vector as its accumulated force.\<close>

theorem NewObject_Forces_zero:
  "Forces (NewObject position velocity mass elasticity) = Vec3 zero32 zero32 zero32"
  by (simp add: NewObject_def)

text \<open>C1 says that construction rejects a mass that is not positive. It does not: with
  mass \<open>0\<close> and with mass \<open>-1.0\<close>, both \<open>\<le> 0\<close>, \<open>NewObject\<close> returns an object that
  holds that mass, and the reciprocal that \<open>Update\<close> takes of the zero mass is \<open>+Inf\<close>.\<close>

theorem NewObject_accepts_nonpositive_mass:
  "fle zero32 zero32 \<and>
   Mass (NewObject zero_vec zero_vec zero32 one32) = zero32 \<and>
   fle minus_one32 zero32 \<and>
   Mass (NewObject zero_vec zero_vec minus_one32 one32) = minus_one32 \<and>
   fdiv one32 (Mass (NewObject zero_vec zero_vec zero32 one32)) = Inf False"
  by (simp add: NewObject_def zero32_def one32_def minus_one32_def signed_def)

text \<open>C1, as the code has it: \<open>NewObject\<close> validates nothing. For every mass it returns
  the object with exactly the given position, velocity, mass and elasticity, and the mass
  stays what it was given through \<open>AddForce\<close> and \<open>Update\<close>, which do not check it
  either.\<close>

theorem NewObject_no_validation:
  "NewObject position velocity mass elasticity =
     \<lparr>Position = position, Velocity = velocity, Mass = mass,
      Forces = Vec3 zero32 zero32 zero32, Elasticity = elasticity\<rparr> \<and>
   Mass (Update dt (AddForce f (NewObject position velocity mass elasticity))) = mass"
  by (simp add: NewObject_def AddForce_def Update_def Let_def)

section \<open>Frame conditions\<close>

text \<open>C8: \<open>AddForce\<close> changes the accumulated force and nothing else; \<open>Update\<close> never
  changes the mass or the elasticity.\<close>

theorem AddForce_Update_frame:
  "Position (AddForce f ob) = Position ob \<and> Velocity (AddForce f ob) = Velocity ob \<and>
   Mass (AddForce f ob) = Mass ob \<and> Elasticity (AddForce f ob) = Elasticity ob \<and>
   AddForce f ob = ob\<lparr>Forces := Forces (AddForce f ob)\<rparr> \<and>
   Mass (Update dt ob) = Mass ob \<and> Elasticity (Update dt ob) = Elasticity ob"
  by (simp add: AddForce_def Update_def Let_def)

section \<open>The steps of an update\<close>

text \<open>C6: after every call of \<open>Update\<close>, in any state and for any time step, the
  accumulated force is the zero vector.\<close>

theorem Update_Forces_zero:
  "Forces (Update dt ob) = Vec3 zero32 zero32 zero32"
  by (simp add: Update_def Let_def)

text \<open>C2 words the first step as the division \<open>accumulatedForce / mass\<close>. The code
  multiplies by the rounded reciprocal \<open>1.0 / mass\<close>, and in \<open>float32\<close> the two differ: for
  a resting object of mass \<open>3\<close> under the force \<open>(0, 5, 0)\<close> and \<open>dt = 1\<close>, \<open>Update\<close>
  leaves the vertical velocity \<open>13981014 * 2^-23\<close>, the steps with the division would
  leave \<open>13981013 * 2^-23\<close>.\<close>

theorem Update_reciprocal_not_division:
  "Velocity (Update one32
      \<lparr>Position = Vec3 zero32 zero32 zero32, Velocity = Vec3 zero32 zero32 zero32,
       Mass = Fin False 12582912 (- 22),
       Forces = Vec3 zero32 (Fin False 10485760 (- 21)) zero32, Elasticity = one32\<rparr>)
     = Vec3 zero32 (Fin False 13981014 (- 23)) zero32 \<and>
   Velocity (spec_steps
      (Div (Vec3 zero32 (Fin False 10485760 (- 21)) zero32) (Fin False 12582912 (- 22))) one32
      \<lparr>Position = Vec3 zero32 zero32 zero32, Velocity = Vec3 zero32 zero32 zero32,
       Mass = Fin False 12582912 (- 22),
       Forces = Vec3 zero32 (Fin False 10485760 (- 21)) zero32, Elasticity = one32\<rparr>)
     = Vec3 zero32 (Fin False 13981013 (- 23)) zero32"
  by (simp add: obj_eval f32_eval)

text \<open>C2, as the code has it: in every state and for every \<open>dt\<close>, \<open>Update\<close> is the
  specification's sequence of steps started from the acceleration
  \<open>accumulatedForce * (1.0 / mass)\<close>: the velocity gains \<open>acceleration * dt\<close>, the position
  gains the new velocity times \<open>dt\<close>, the accumulated force becomes the zero vector, and
  then a position with \<open>y < -1.0\<close> gets \<open>y = -1.0\<close> and the vertical velocity
  \<open>-velocity.y * elasticity\<close>.\<close>

theorem Update_steps:
  "Update dt ob = spec_steps (Mul (Forces ob) (fdiv one32 (Mass ob))) dt ob"
  by (simp add: Update_def spec_steps_def Let_def set_Y_def zero_vec_def)

section \<open>Ground collision\<close>

text \<open>C3 promises a vertical velocity equal to zero after a bounce with elasticity \<open>0\<close>.
  A resting object of mass \<open>1\<close> under the force \<open>(0, -max, 0)\<close>, \<open>max\<close> the largest
  finite \<open>float32\<close>, updated with \<open>dt = 2\<close>: its velocity overflows to \<open>-Inf\<close>, its
  position is below the ground at the check, and the reflected velocity \<open>Inf * 0\<close> is NaN,
  which is not equal to zero.\<close>

theorem inelastic_bounce_of_infinite_velocity:
  "flt (Y (Position (integrate (Fin False 8388608 (- 22))
      \<lparr>Position = Vec3 zero32 zero32 zero32, Velocity = Vec3 zero32 zero32 zero32,
       Mass = one32, Forces = Vec3 zero32 (Fin True 16777215 104) zero32,
       Elasticity = zero32\<rparr>))) minus_one32 \<and>
   Y (Velocity (integrate (Fin False 8388608 (- 22))
      \<lparr>Position = Vec3 zero32 zero32 zero32, Velocity = Vec3 zero32 zero32 zero32,
       Mass = one32, Forces = Vec3 zero32 (Fin True 16777215 104) zero32,
       Elasticity = zero32\<rparr>)) = Inf True \<and>
   Y (Velocity (Update (Fin False 8388608 (- 22))
      \<lparr>Position = Vec3 zero32 zero32 zero32, Velocity = Vec3 zero32 zero32 zero32,
       Mass = one32, Forces = Vec3 zero32 (Fin True 16777215 104) zero32,
       Elasticity = zero32\<rparr>)) = NaN \<and>
   \<not> feq NaN zero32"
  by (simp add: obj_eval f32_eval)

text \<open>C3, as the code has it: when the position at the collision check is below \<open>-1.0\<close>,
  then after \<open>Update\<close> the vertical position is exactly \<open>-1.0\<close> and the vertical velocity
  is \<open>-v * elasticity\<close>, \<open>v\<close> the vertical velocity at the check; with elasticity \<open>1.0\<close>
  that is \<open>-v\<close>, and equal to it under Go's \<open>==\<close>; with elasticity zero it is equal to zero
  when \<open>v\<close> is finite, and NaN when \<open>v\<close> is an infinity.\<close>

theorem ground_collision_response:
  assumes "flt (Y (Position (integrate dt ob))) minus_one32"
  shows "Y (Position (Update dt ob)) = minus_one32 \<and>
    Y (Velocity (Update dt ob)) = fmul (fneg (Y (Velocity (integrate dt ob)))) (Elasticity ob) \<and>
    (Elasticity ob = one32 \<longrightarrow>
       Y (Velocity (Update dt ob)) = fneg (Y (Velocity (integrate dt ob))) \<and>
       feq (Y (Velocity (Update dt ob))) (fneg (Y (Velocity (integrate dt ob))))) \<and>
    (is_zero (Elasticity ob) \<and> is_finite (Y (Velocity (integrate dt ob))) \<longrightarrow>
       feq (Y (Velocity (Update dt ob))) zero32) \<and>
    (is_zero (Elasticity ob) \<and> \<not> is_finite (Y (Velocity (integrate dt ob))) \<longrightarrow>
       Y (Velocity (Update dt ob)) = NaN)"
proof -
  define v where "v = Y (Velocity (integrate dt ob))"
  have pos: "Y (Position (Update dt ob)) = minus_one32"
    using assms by (simp add: Update_integrate set_Y_def)
  have vel: "Y (Velocity (Update dt ob)) = fmul (fneg v) (Elasticity ob)"
    using assms by (simp add: Update_integrate set_Y_def v_def)
  have "flt (fadd (Y (Position ob)) (fmul v dt)) minus_one32"
    using assms by (simp add: integrate_Position Add_def Mul_def v_def)
  then have nn: "v \<noteq> NaN" by (rule flt_fadd_fmul_not_NaN)
  have val: "valid32 v"
    by (simp add: v_def integrate_Velocity Add_def valid32_fadd)
  have one: "fmul (fneg v) one32 = fneg v"
    by (rule fmul_one32) (simp add: valid32_fneg val)
  have "fneg v \<noteq> NaN" using nn by (cases v) auto
  then have eq: "feq (fneg v) (fneg v)" by (rule feq_refl)
  have z1: "feq (fmul (fneg v) z) zero32" if "is_zero z" "is_finite v" for z
    using that by (cases v; cases z) (auto simp: round_dyadic_zero zero32_def signed_def)
  have z2: "fmul (fneg v) z = NaN" if "is_zero z" "\<not> is_finite v" for z
    using that nn by (cases v; cases z) auto
  show ?thesis
    unfolding pos vel v_def[symmetric] using one eq z1 z2 by auto
qed

text \<open>An object at \<open>y = -1\<close> falling with velocity \<open>-1\<close>, elasticity \<open>1.0\<close>, \<open>dt = 1\<close>:
  it is below the ground at the check and leaves at \<open>y = -1\<close> with velocity \<open>+1\<close>.\<close>

theorem ground_collision_response_witness:
  "flt (Y (Position (integrate one32
      \<lparr>Position = Vec3 zero32 minus_one32 zero32, Velocity = Vec3 zero32 minus_one32 zero32,
       Mass = one32, Forces = Vec3 zero32 zero32 zero32, Elasticity = one32\<rparr>))) minus_one32 \<and>
   Y (Position (Update one32
      \<lparr>Position = Vec3 zero32 minus_one32 zero32, Velocity = Vec3 zero32 minus_one32 zero32,
       Mass = one32, Forces = Vec3 zero32 zero32 zero32, Elasticity = one32\<rparr>)) = minus_one32 \<and>
   Y (Velocity (Update one32
      \<lparr>Position = Vec3 zero32 minus_one32 zero32, Velocity = Vec3 zero32 minus_one32 zero32,
       Mass = one32, Forces = Vec3 zero32 zero32 zero32, Elasticity = one32\<rparr>)) = one32"
proof -
  have h: "flt (Y (Position (integrate one32
      \<lparr>Position = Vec3 zero32 minus_one32 zero32, Velocity = Vec3 zero32 minus_one32 zero32,
       Mass = one32, Forces = Vec3 zero32 zero32 zero32, Elasticity = one32\<rparr>))) minus_one32"
    by (simp add: obj_eval f32_eval)
  have v: "Y (Velocity (integrate one32
      \<lparr>Position = Vec3 zero32 minus_one32 zero32, Velocity = Vec3 zero32 minus_one32 zero32,
       Mass = one32, Forces = Vec3 zero32 zero32 zero32, Elasticity = one32\<rparr>)) = minus_one32"
    by (simp add: obj_eval f32_eval)
  have n: "fneg minus_one32 = one32"
    by (simp add: one32_def minus_one32_def)
  have m: "fmul one32 one32 = one32"
    by (simp add: f32_eval)
  show ?thesis
    using h ground_collision_response [OF h] by (simp add: v n m)
qed

text \<open>C10 says that the vertical position is at least \<open>-1.0\<close> after every update. A
  resting object at the origin whose mass is the smallest positive \<open>float32\<close>, \<open>2^-149\<close>,
  with no force on it and \<open>dt = 1\<close>: \<open>1.0 / mass\<close> overflows to \<open>+Inf\<close>, the acceleration
  \<open>0 * Inf\<close> is NaN, and so is the position after the update, alone or after an
  \<open>AddForce\<close> of the zero vector; \<open>-1.0 \<le> NaN\<close> is false.\<close>

theorem position_NaN_after_update:
  "flt zero32 (Fin False 1 (- 149)) \<and>
   Y (Position (Update one32
      \<lparr>Position = Vec3 zero32 zero32 zero32, Velocity = Vec3 zero32 zero32 zero32,
       Mass = Fin False 1 (- 149), Forces = Vec3 zero32 zero32 zero32,
       Elasticity = one32\<rparr>)) = NaN \<and>
   Y (Position (Update one32 (AddForce (Vec3 zero32 zero32 zero32)
      \<lparr>Position = Vec3 zero32 zero32 zero32, Velocity = Vec3 zero32 zero32 zero32,
       Mass = Fin False 1 (- 149), Forces = Vec3 zero32 zero32 zero32,
       Elasticity = one32\<rparr>))) = NaN \<and>
   \<not> fle minus_one32 NaN"
  by (simp add: obj_eval f32_eval)

text \<open>C10, as the code has it: after every \<open>Update\<close> the vertical position is never below
  \<open>-1.0\<close>: it is NaN or at least \<open>-1.0\<close>. \<open>AddForce\<close> leaves the position alone, so the same
  holds after every tick, an \<open>AddForce\<close> followed by an \<open>Update\<close>.\<close>

theorem position_not_below_ground:
  "\<not> flt (Y (Position (Update dt ob))) minus_one32 \<and>
   (Y (Position (Update dt ob)) = NaN \<or> fle minus_one32 (Y (Position (Update dt ob)))) \<and>
   Position (AddForce f ob) = Position ob \<and>
   \<not> flt (Y (Position (Update dt (AddForce f ob)))) minus_one32"
proof -
  have a: "\<not> flt (Y (Position (Update dt b))) minus_one32" for b
    by (simp add: Update_integrate set_Y_def not_flt_ground)
  have "fle minus_one32 (Y (Position (Update dt ob)))" if "Y (Position (Update dt ob)) \<noteq> NaN"
    using a[of ob] that by (intro not_flt_fle) (simp_all add: minus_one32_def)
  then show ?thesis using a by (auto simp: AddForce_def)
qed

section \<open>Integration without a force\<close>

text \<open>C4 says that with no accumulated force and \<open>dt > 0\<close> the velocity is unchanged and
  the position advances by \<open>velocity * dt\<close>. An object at \<open>y = -1\<close> falling with velocity
  \<open>-1\<close>, elasticity \<open>1.0\<close>, no force, \<open>dt = 1\<close>: it hits the ground, its velocity turns
  from \<open>-1\<close> to \<open>+1\<close>, and its position stays \<open>-1\<close> where \<open>position + velocity * dt\<close>
  is \<open>-2\<close>.\<close>

theorem zero_force_bounce:
  "flt zero32 one32 \<and>
   Velocity (Update one32
      \<lparr>Position = Vec3 zero32 minus_one32 zero32, Velocity = Vec3 zero32 minus_one32 zero32,
       Mass = one32, Forces = Vec3 zero32 zero32 zero32, Elasticity = one32\<rparr>)
     = Vec3 zero32 one32 zero32 \<and>
   \<not> feq one32 minus_one32 \<and>
   Position (Update one32
      \<lparr>Position = Vec3 zero32 minus_one32 zero32, Velocity = Vec3 zero32 minus_one32 zero32,
       Mass = one32, Forces = Vec3 zero32 zero32 zero32, Elasticity = one32\<rparr>)
     = Vec3 zero32 minus_one32 zero32 \<and>
   Add (Vec3 zero32 minus_one32 zero32) (Mul (Vec3 zero32 minus_one32 zero32) one32)
     = Vec3 zero32 (Fin True 8388608 (- 22)) zero32 \<and>
   \<not> feq minus_one32 (Fin True 8388608 (- 22))"
  by (simp add: obj_eval f32_eval)

text \<open>C4, as the code has it: when every component of the accumulated force is a zero,
  \<open>1.0 / mass\<close> and \<open>dt\<close> are finite, the velocity and the position are well-formed
  \<open>float32\<close> values, and the position at the collision check is not below \<open>-1.0\<close>, then
  \<open>Update\<close> leaves the velocity what it was and the position is
  \<open>position + velocity * dt\<close>, both up to the sign of a zero component.\<close>

theorem zero_force_update:
  assumes "zero_valued (Forces ob)"
    and "is_finite (fdiv one32 (Mass ob))" and "is_finite dt"
    and "valid_vec (Velocity ob)" and "valid_vec (Position ob)"
    and "\<not> flt (Y (Position (integrate dt ob))) minus_one32"
  shows "same_vec (Velocity (Update dt ob)) (Velocity ob) \<and>
         same_vec (Position (Update dt ob)) (Add (Position ob) (Mul (Velocity ob) dt))"
proof -
  have u: "Update dt ob = integrate dt ob" using assms(6) by (simp add: Update_integrate)
  have F: "is_zero (X (Forces ob))" "is_zero (Y (Forces ob))" "is_zero (Z (Forces ob))"
    using assms(1) by (simp_all add: zero_valued_def)
  have V: "valid32 (X (Velocity ob))" "valid32 (Y (Velocity ob))" "valid32 (Z (Velocity ob))"
    using assms(4) by (simp_all add: valid_vec_def)
  have P: "valid32 (X (Position ob))" "valid32 (Y (Position ob))" "valid32 (Z (Position ob))"
    using assms(5) by (simp_all add: valid_vec_def)
  note vel = zero_force_velocity[OF _ assms(2,3)]
  note pos = zero_force_position[OF _ assms(2,3)]
  have "same_vec (Velocity (integrate dt ob)) (Velocity ob)"
    unfolding integrate_Velocity same_vec_def Add_def Mul_def Vec3.sel
    by (intro conjI vel F V)
  moreover have "same_vec (Position (integrate dt ob)) (Add (Position ob) (Mul (Velocity ob) dt))"
    unfolding integrate_Position integrate_Velocity same_vec_def Add_def Mul_def Vec3.sel
    by (intro conjI pos F V P)
  ultimately show ?thesis unfolding u by (rule conjI)
qed

text \<open>An object at the origin rising with velocity \<open>1\<close>, mass \<open>1\<close>, no force, \<open>dt = 1\<close>.\<close>

theorem zero_force_update_witness:
  "zero_valued (Vec3 zero32 zero32 zero32) \<and> is_finite (fdiv one32 one32) \<and> is_finite one32 \<and>
   valid_vec (Vec3 zero32 one32 zero32) \<and> valid_vec (Vec3 zero32 zero32 zero32) \<and>
   \<not> flt (Y (Position (integrate one32
      \<lparr>Position = Vec3 zero32 zero32 zero32, Velocity = Vec3 zero32 one32 zero32,
       Mass = one32, Forces = Vec3 zero32 zero32 zero32, Elasticity = one32\<rparr>))) minus_one32 \<and>
   same_vec (Velocity (Update one32
      \<lparr>Position = Vec3 zero32 zero32 zero32, Velocity = Vec3 zero32 one32 zero32,
       Mass = one32, Forces = Vec3 zero32 zero32 zero32, Elasticity = one32\<rparr>))
     (Vec3 zero32 one32 zero32) \<and>
   same_vec (Position (Update one32
      \<lparr>Position = Vec3 zero32 zero32 zero32, Velocity = Vec3 zero32 one32 zero32,
       Mass = one32, Forces = Vec3 zero32 zero32 zero32, Elasticity = one32\<rparr>))
     (Add (Vec3 zero32 zero32 zero32) (Mul (Vec3 zero32 one32 zero32) one32))"
proof -
  have h1: "zero_valued (Vec3 zero32 zero32 zero32)"
    by (simp add: zero_valued_def zero32_def)
  have h2: "is_finite (fdiv one32 one32)"
    by (simp add: f32_eval)
  have h3: "is_finite one32"
    by (simp add: one32_def)
  have h4: "valid_vec (Vec3 zero32 one32 zero32)" and h5: "valid_vec (Vec3 zero32 zero32 zero32)"
    by (simp_all add: valid_vec_def zero32_def one32_def)
  have h6: "\<not> flt (Y (Position (integrate one32
      \<lparr>Position = Vec3 zero32 zero32 zero32, Velocity = Vec3 zero32 one32 zero32,
       Mass = one32, Forces = Vec3 zero32 zero32 zero32, Elasticity = one32\<rparr>))) minus_one32"
    by (simp add: obj_eval f32_eval)
  show ?thesis
    using h1 h2 h3 h4 h5 h6
      zero_force_update [where dt = one32 and ob = "\<lparr>Position = Vec3 zero32 zero32 zero32,
        Velocity = Vec3 zero32 one32 zero32, Mass = one32,
        Forces = Vec3 zero32 zero32 zero32, Elasticity = one32\<rparr>"]
    by simp
qed

section \<open>One tick under a force\<close>

text \<open>C5 says that a force \<open>F\<close> applied for one tick changes the velocity by
  \<open>(F / mass) * dt\<close> whatever the position. Two objects of mass \<open>1\<close> and elasticity \<open>1.0\<close>
  falling with velocity \<open>-1\<close>, one at \<open>y = 4\<close> and one at \<open>y = 0\<close>, under the force
  \<open>(0, -1, 0)\<close> for \<open>dt = 1\<close>: \<open>velocity + (F / mass) * dt\<close> is \<open>-2\<close> for both; the first
  ends with \<open>-2\<close>, the second reaches the ground and ends with \<open>+2\<close>.\<close>

theorem velocity_change_depends_on_position:
  "Velocity (Update one32 (AddForce (Vec3 zero32 minus_one32 zero32)
      \<lparr>Position = Vec3 zero32 (Fin False 8388608 (- 21)) zero32,
       Velocity = Vec3 zero32 minus_one32 zero32,
       Mass = one32, Forces = Vec3 zero32 zero32 zero32, Elasticity = one32\<rparr>))
     = Vec3 zero32 (Fin True 8388608 (- 22)) zero32 \<and>
   Velocity (Update one32 (AddForce (Vec3 zero32 minus_one32 zero32)
      \<lparr>Position = Vec3 zero32 zero32 zero32,
       Velocity = Vec3 zero32 minus_one32 zero32,
       Mass = one32, Forces = Vec3 zero32 zero32 zero32, Elasticity = one32\<rparr>))
     = Vec3 zero32 (Fin False 8388608 (- 22)) zero32 \<and>
   Add (Vec3 zero32 minus_one32 zero32) (Mul (Div (Vec3 zero32 minus_one32 zero32) one32) one32)
     = Vec3 zero32 (Fin True 8388608 (- 22)) zero32"
  by (simp add: obj_eval f32_eval)

text \<open>C5, as the code has it: for every object, mass, force \<open>F\<close> and \<open>dt\<close>, placed at any
  position \<open>p\<close>: if the position at the collision check is not below \<open>-1.0\<close>, \<open>AddForce F\<close>
  followed by \<open>Update dt\<close> leaves the velocity
  \<open>velocity + ((accumulatedForce + F) * (1.0 / mass)) * dt\<close>, an expression in which the
  position does not occur; if it is below, the vertical component of that velocity is
  negated and multiplied by the elasticity. When the accumulated force was the zero vector
  and the components of \<open>F\<close> are well-formed and none is a negative zero,
  \<open>accumulatedForce + F\<close> is \<open>F\<close>.\<close>

theorem force_tick_velocity:
  "(\<not> flt (Y (Position (integrate dt (AddForce f (ob\<lparr>Position := p\<rparr>))))) minus_one32 \<longrightarrow>
      Velocity (Update dt (AddForce f (ob\<lparr>Position := p\<rparr>))) =
        Add (Velocity ob) (Mul (Mul (Add (Forces ob) f) (fdiv one32 (Mass ob))) dt)) \<and>
   (flt (Y (Position (integrate dt (AddForce f (ob\<lparr>Position := p\<rparr>))))) minus_one32 \<longrightarrow>
      Velocity (Update dt (AddForce f (ob\<lparr>Position := p\<rparr>))) =
        set_Y (Add (Velocity ob) (Mul (Mul (Add (Forces ob) f) (fdiv one32 (Mass ob))) dt))
          (fmul (fneg (Y (Add (Velocity ob) (Mul (Mul (Add (Forces ob) f) (fdiv one32 (Mass ob))) dt))))
             (Elasticity ob))) \<and>
   (Forces ob = Vec3 zero32 zero32 zero32 \<and> valid_vec f \<and> no_neg_zero f \<longrightarrow>
      Add (Forces ob) f = f)"
proof -
  have v: "Velocity (integrate dt (AddForce f (ob\<lparr>Position := p\<rparr>))) =
      Add (Velocity ob) (Mul (Mul (Add (Forces ob) f) (fdiv one32 (Mass ob))) dt)"
    by (simp add: integrate_Velocity AddForce_def)
  have e: "Elasticity (AddForce f (ob\<lparr>Position := p\<rparr>)) = Elasticity ob"
    by (simp add: AddForce_def)
  have z: "Add (Forces ob) f = f"
    if "Forces ob = Vec3 zero32 zero32 zero32" "valid_vec f" "no_neg_zero f"
    unfolding that(1) using that(2,3) by (rule Add_zero_left)
  have c1: "Velocity (Update dt (AddForce f (ob\<lparr>Position := p\<rparr>))) =
      Add (Velocity ob) (Mul (Mul (Add (Forces ob) f) (fdiv one32 (Mass ob))) dt)"
    if "\<not> flt (Y (Position (integrate dt (AddForce f (ob\<lparr>Position := p\<rparr>))))) minus_one32"
    using that by (simp only: Update_integrate if_False v)
  have c2: "Velocity (Update dt (AddForce f (ob\<lparr>Position := p\<rparr>))) =
        set_Y (Add (Velocity ob) (Mul (Mul (Add (Forces ob) f) (fdiv one32 (Mass ob))) dt))
          (fmul (fneg (Y (Add (Velocity ob) (Mul (Mul (Add (Forces ob) f) (fdiv one32 (Mass ob))) dt))))
             (Elasticity ob))"
    if "flt (Y (Position (integrate dt (AddForce f (ob\<lparr>Position := p\<rparr>))))) minus_one32"
    using that by (simp add: Update_integrate v e)
  show ?thesis
  proof (intro conjI impI)
    assume "\<not> flt (Y (Position (integrate dt (AddForce f (ob\<lparr>Position := p\<rparr>))))) minus_one32"
    then show "Velocity (Update dt (AddForce f (ob\<lparr>Position := p\<rparr>))) =
      Add (Velocity ob) (Mul (Mul (Add (Forces ob) f) (fdiv one32 (Mass ob))) dt)" by (rule c1)
  next
    assume "flt (Y (Position (integrate dt (AddForce f (ob\<lparr>Position := p\<rparr>))))) minus_one32"
    then show "Velocity (Update dt (AddForce f (ob\<lparr>Position := p\<rparr>))) =
        set_Y (Add (Velocity ob) (Mul (Mul (Add (Forces ob) f) (fdiv one32 (Mass ob))) dt))
          (fmul (fneg (Y (Add (Velocity ob) (Mul (Mul (Add (Forces ob) f) (fdiv one32 (Mass ob))) dt))))
             (Elasticity ob))" by (rule c2)
  next
    assume "Forces ob = Vec3 zero32 zero32 zero32 \<and> valid_vec f \<and> no_neg_zero f"
    then show "Add (Forces ob) f = f" using z by simp
  qed
qed

text \<open>The first of the two objects above, at \<open>y = 4\<close>.\<close>

theorem force_tick_velocity_witness:
  "\<not> flt (Y (Position (integrate one32 (AddForce (Vec3 zero32 minus_one32 zero32)
      \<lparr>Position = Vec3 zero32 (Fin False 8388608 (- 21)) zero32,
       Velocity = Vec3 zero32 minus_one32 zero32,
       Mass = one32, Forces = Vec3 zero32 zero32 zero32, Elasticity = one32\<rparr>)))) minus_one32 \<and>
   valid_vec (Vec3 zero32 minus_one32 zero32) \<and> no_neg_zero (Vec3 zero32 minus_one32 zero32) \<and>
   Velocity (Update one32 (AddForce (Vec3 zero32 minus_one32 zero32)
      \<lparr>Position = Vec3 zero32 (Fin False 8388608 (- 21)) zero32,
       Velocity = Vec3 zero32 minus_one32 zero32,
       Mass = one32, Forces = Vec3 zero32 zero32 zero32, Elasticity = one32\<rparr>))
     = Add (Vec3 zero32 minus_one32 zero32)
         (Mul (Mul (Vec3 zero32 minus_one32 zero32) (fdiv one32 one32)) one32)"
proof -
  have h: "\<not> flt (Y (Position (integrate one32 (AddForce (Vec3 zero32 minus_one32 zero32)
      \<lparr>Position = Vec3 zero32 (Fin False 8388608 (- 21)) zero32,
       Velocity = Vec3 zero32 minus_one32 zero32,
       Mass = one32, Forces = Vec3 zero32 zero32 zero32, Elasticity = one32\<rparr>)))) minus_one32"
    by (simp add: obj_eval f32_eval)
  have v: "valid_vec (Vec3 zero32 minus_one32 zero32)" "no_neg_zero (Vec3 zero32 minus_one32 zero32)"
    by (simp_all add: valid_vec_def no_neg_zero_def zero32_def minus_one32_def)
  show ?thesis
    using h v
      force_tick_velocity [where dt = one32 and f = "Vec3 zero32 minus_one32 zero32"
        and ob = "\<lparr>Position = Vec3 zero32 (Fin False 8388608 (- 21)) zero32,
          Velocity = Vec3 zero32 minus_one32 zero32, Mass = one32,
          Forces = Vec3 zero32 zero32 zero32, Elasticity = one32\<rparr>"
        and p = "Vec3 zero32 (Fin False 8388608 (- 21)) zero32"]
    by simp
qed

section \<open>Accumulating forces\<close>

text \<open>C7 says that adding \<open>A\<close> and then \<open>B\<close> is the same as adding \<open>A + B\<close>, in every
  state. An object that already carries the force \<open>(2^24, 0, 0)\<close>, mass \<open>1\<close>, with
  \<open>A = B = (1, 0, 0)\<close> and \<open>dt = 1\<close>: \<open>2^24 + 1\<close> rounds back to \<open>2^24\<close>, twice, while
  \<open>2^24 + 2\<close> is exact, and the velocities after the update differ.\<close>

theorem AddForce_twice_differs_from_sum:
  "Velocity (Update one32 (AddForce (Vec3 one32 zero32 zero32) (AddForce (Vec3 one32 zero32 zero32)
      \<lparr>Position = Vec3 zero32 zero32 zero32, Velocity = Vec3 zero32 zero32 zero32,
       Mass = one32, Forces = Vec3 (Fin False 8388608 1) zero32 zero32,
       Elasticity = one32\<rparr>)))
     = Vec3 (Fin False 8388608 1) zero32 zero32 \<and>
   Velocity (Update one32 (AddForce (Add (Vec3 one32 zero32 zero32) (Vec3 one32 zero32 zero32))
      \<lparr>Position = Vec3 zero32 zero32 zero32, Velocity = Vec3 zero32 zero32 zero32,
       Mass = one32, Forces = Vec3 (Fin False 8388608 1) zero32 zero32,
       Elasticity = one32\<rparr>))
     = Vec3 (Fin False 8388609 1) zero32 zero32"
  by (simp add: obj_eval f32_eval)

text \<open>C7, as the code has it: when the accumulated force is the zero vector, as it is
  after \<open>NewObject\<close> and after every \<open>Update\<close>, and the components of \<open>A\<close> and \<open>B\<close> are
  well-formed \<open>float32\<close> values, then \<open>AddForce A\<close> followed by \<open>AddForce B\<close> gives the
  same object as \<open>AddForce (A + B)\<close>, and so the same object after \<open>Update dt\<close>.\<close>

theorem AddForce_additive_from_zero:
  assumes "Forces ob = Vec3 zero32 zero32 zero32" "valid_vec a" "valid_vec b"
  shows "AddForce b (AddForce a ob) = AddForce (Add a b) ob \<and>
         Update dt (AddForce b (AddForce a ob)) = Update dt (AddForce (Add a b) ob)"
proof -
  have "Add (Add (Vec3 zero32 zero32 zero32) a) b = Add (Vec3 zero32 zero32 zero32) (Add a b)"
    using assms(2,3) by (simp add: Add_def valid_vec_def fadd_zero_assoc)
  then have "AddForce b (AddForce a ob) = AddForce (Add a b) ob"
    using assms(1) by (simp add: AddForce_def)
  then show ?thesis by simp
qed

text \<open>A new object, \<open>A = (1, 0, 0)\<close> and \<open>B = (0, -1, 0)\<close>.\<close>

theorem AddForce_additive_from_zero_witness:
  "Forces (NewObject zero_vec zero_vec one32 one32) = Vec3 zero32 zero32 zero32 \<and>
   valid_vec (Vec3 one32 zero32 zero32) \<and> valid_vec (Vec3 zero32 minus_one32 zero32) \<and>
   AddForce (Vec3 zero32 minus_one32 zero32)
     (AddForce (Vec3 one32 zero32 zero32) (NewObject zero_vec zero_vec one32 one32)) =
   AddForce (Add (Vec3 one32 zero32 zero32) (Vec3 zero32 minus_one32 zero32))
     (NewObject zero_vec zero_vec one32 one32) \<and>
   Update one32 (AddForce (Vec3 zero32 minus_one32 zero32)
     (AddForce (Vec3 one32 zero32 zero32) (NewObject zero_vec zero_vec one32 one32))) =
   Update one32 (AddForce (Add (Vec3 one32 zero32 zero32) (Vec3 zero32 minus_one32 zero32))
     (NewObject zero_vec zero_vec one32 one32))"
proof -
  have h1: "Forces (NewObject zero_vec zero_vec one32 one32) = Vec3 zero32 zero32 zero32"
    by (simp add: NewObject_def)
  have h2: "valid_vec (Vec3 one32 zero32 zero32)" and h3: "valid_vec (Vec3 zero32 minus_one32 zero32)"
    by (simp_all add: valid_vec_def zero32_def one32_def minus_one32_def)
  show ?thesis
    using h1 h2 h3 AddForce_additive_from_zero [OF h1 h2 h3, where dt = one32] by simp
qed

end
